theory Spec2Isabelle
  imports Main
begin

section \<open>Values held in the log\<close>

text \<open>
  The program is JavaScript. The numeric slots it reads and writes (the \<open>amount\<close> and
  \<open>initialBalance\<close> arguments of the handlers and properties of a payload, an
  account's \<open>balance\<close>) hold a value of the Number type or \<open>undefined\<close> (an argument
  that is not passed, or a property that the object does not have). The Number type is
  the finite numbers, \<open>Infinity\<close>, \<open>-Infinity\<close> and \<open>NaN\<close>; the infinities do reach
  the handlers, since \<open>JSON.parse\<close> reads \<open>1e999\<close> as \<open>Infinity\<close>. Finite numbers are
  modelled as integers: the rounding of finite IEEE doubles, and the overflow of a finite
  sum to \<open>Infinity\<close>, are outside this development, and so are values of other types
  (strings, booleans, objects) in a numeric slot. Sequence numbers and versions are
  counters that start at a non-negative integer and are only incremented, hence \<open>nat\<close>.
\<close>

datatype jsval = Undefined | NaN | PosInf | NegInf | Num int

text \<open>Truthiness: \<open>undefined\<close>, \<open>NaN\<close> and \<open>0\<close> are falsy, every other number is truthy.\<close>

fun truthy :: "jsval \<Rightarrow> bool" where
  "truthy (Num n) = (n \<noteq> 0)"
| "truthy PosInf = True"
| "truthy NegInf = True"
| "truthy NaN = False"
| "truthy Undefined = False"

text \<open>\<open>a || b\<close>\<close>

definition js_or :: "jsval \<Rightarrow> jsval \<Rightarrow> jsval" where
  "js_or a b = (if truthy a then a else b)"

text \<open>
  \<open>a + b\<close> and \<open>a - b\<close>: \<open>undefined\<close> converts to \<open>NaN\<close>, \<open>NaN\<close> absorbs, and the
  sum of the two infinities, like the difference of an infinity and itself, is \<open>NaN\<close>.
\<close>

fun js_add :: "jsval \<Rightarrow> jsval \<Rightarrow> jsval" where
  "js_add (Num a) (Num b) = Num (a + b)"
| "js_add PosInf (Num b) = PosInf"
| "js_add (Num a) PosInf = PosInf"
| "js_add PosInf PosInf = PosInf"
| "js_add NegInf (Num b) = NegInf"
| "js_add (Num a) NegInf = NegInf"
| "js_add NegInf NegInf = NegInf"
| "js_add _ _ = NaN"

fun js_sub :: "jsval \<Rightarrow> jsval \<Rightarrow> jsval" where
  "js_sub (Num a) (Num b) = Num (a - b)"
| "js_sub PosInf (Num b) = PosInf"
| "js_sub (Num a) NegInf = PosInf"
| "js_sub PosInf NegInf = PosInf"
| "js_sub NegInf (Num b) = NegInf"
| "js_sub (Num a) PosInf = NegInf"
| "js_sub NegInf PosInf = NegInf"
| "js_sub _ _ = NaN"

text \<open>
  \<open>a < b\<close> and \<open>a <= b\<close>: \<open>undefined\<close> converts to \<open>NaN\<close>, and every comparison with
  \<open>NaN\<close> is false.
\<close>

fun js_lt :: "jsval \<Rightarrow> jsval \<Rightarrow> bool" where
  "js_lt (Num a) (Num b) = (a < b)"
| "js_lt (Num a) PosInf = True"
| "js_lt NegInf (Num b) = True"
| "js_lt NegInf PosInf = True"
| "js_lt _ _ = False"

fun js_le :: "jsval \<Rightarrow> jsval \<Rightarrow> bool" where
  "js_le (Num a) (Num b) = (a \<le> b)"
| "js_le (Num a) PosInf = True"
| "js_le NegInf (Num b) = True"
| "js_le NegInf PosInf = True"
| "js_le PosInf PosInf = True"
| "js_le NegInf NegInf = True"
| "js_le _ _ = False"

text \<open>
  The \<open>data\<close> object of an event. The program builds three shapes:
  \<open>{owner, initialBalance}\<close>, \<open>{amount}\<close> and \<open>{}\<close>; a property that is absent is
  \<open>None\<close> (for \<open>owner\<close>) or \<open>Undefined\<close>. Every call of \<open>append\<close> in the
  program passes an object literal, so \<open>data\<close> is always an object and reading a
  property of it never throws.
\<close>

record payload =
  p_owner :: "string option"
  p_initialBalance :: jsval
  p_amount :: jsval

record event =
  ev_id :: nat
  ev_type :: string
  ev_aggregateId :: string
  ev_data :: payload
  ev_timestamp :: string

section \<open>Event store\<close>

record store =
  events :: "event list"
  eventId :: nat

text \<open>\<open>function EventStore()\<close>\<close>

definition EventStore :: store where
  "EventStore = \<lparr>events = [], eventId = 1\<rparr>"

text \<open>
  \<open>EventStore.prototype.append\<close>. The store is mutated in place in the program; here the
  new store is returned beside the event. \<open>now\<close> is the value of
  \<open>new Date().toISOString()\<close> at the call. Writing to the console is left out.
\<close>

definition append_event ::
  "store \<Rightarrow> string \<Rightarrow> string \<Rightarrow> payload \<Rightarrow> string \<Rightarrow> event \<times> store" where
  "append_event this eventType aggregateId dat now =
     (let event = \<lparr>ev_id = eventId this, ev_type = eventType,
                    ev_aggregateId = aggregateId, ev_data = dat, ev_timestamp = now\<rparr>
      in (event, this\<lparr>events := events this @ [event], eventId := eventId this + 1\<rparr>))"

text \<open>
  \<open>EventStore.prototype.getEventsForAggregate\<close>: the loop over the indices of
  \<open>this.events\<close>, with \<open>result\<close> as its accumulator.
\<close>

fun getEventsLoop :: "event list \<Rightarrow> string \<Rightarrow> event list \<Rightarrow> event list" where
  "getEventsLoop [] aggregateId result = result"
| "getEventsLoop (e # es) aggregateId result =
     getEventsLoop es aggregateId
       (if ev_aggregateId e = aggregateId then result @ [e] else result)"

definition getEventsForAggregate :: "store \<Rightarrow> string \<Rightarrow> event list" where
  "getEventsForAggregate this aggregateId = getEventsLoop (events this) aggregateId []"

definition getAllEvents :: "store \<Rightarrow> event list" where
  "getAllEvents this = events this"

section \<open>Account aggregate\<close>

record account =
  acc_id :: string
  balance :: jsval
  owner :: "string option"
  isActive :: bool
  version :: nat

text \<open>\<open>function Account(id)\<close>\<close>

definition Account :: "string \<Rightarrow> account" where
  "Account i = \<lparr>acc_id = i, balance = Num 0, owner = Some '''', isActive = False, version = 0\<rparr>"

text \<open>\<open>Account.prototype.apply\<close>: the version is bumped first, then the chain of
  comparisons on \<open>event.type\<close>, which has no final \<open>else\<close>.\<close>

definition apply_event :: "account \<Rightarrow> event \<Rightarrow> account" where
  "apply_event this event =
     (let this1 = this\<lparr>version := version this + 1\<rparr> in
      if ev_type event = ''AccountCreated'' then
        this1\<lparr>owner := p_owner (ev_data event),
              balance := js_or (p_initialBalance (ev_data event)) (Num 0),
              isActive := True\<rparr>
      else if ev_type event = ''MoneyDeposited'' then
        this1\<lparr>balance := js_add (balance this1) (p_amount (ev_data event))\<rparr>
      else if ev_type event = ''MoneyWithdrawn'' then
        this1\<lparr>balance := js_sub (balance this1) (p_amount (ev_data event))\<rparr>
      else if ev_type event = ''AccountClosed'' then
        this1\<lparr>isActive := False\<rparr>
      else this1)"

text \<open>\<open>Account.prototype.loadFromHistory\<close>\<close>

fun loadFromHistory :: "account \<Rightarrow> event list \<Rightarrow> account" where
  "loadFromHistory this [] = this"
| "loadFromHistory this (e # es) = loadFromHistory (apply_event this e) es"

section \<open>Command handlers\<close>

text \<open>
  A handler returns \<open>{success: true, event}\<close> or \<open>{success: false, error}\<close>. The
  handlers do not check the type of an amount or of an opening balance: they compare it
  (\<open>amount <= 0\<close>, \<open>account.balance < amount\<close>) or default it (\<open>initialBalance || 0\<close>)
  and store it as it is.
\<close>

datatype result = Success event | Failure string

text \<open>\<open>CommandHandler.prototype.getAccountState\<close>\<close>

definition getAccountState :: "store \<Rightarrow> string \<Rightarrow> account" where
  "getAccountState this accountId =
     loadFromHistory (Account accountId) (getEventsForAggregate this accountId)"

definition createAccount :: "store \<Rightarrow> string \<Rightarrow> string \<Rightarrow> jsval \<Rightarrow> string \<Rightarrow> result \<times> store" where
  "createAccount this accountId own initialBalance now =
     (let (event, this') =
            append_event this ''AccountCreated'' accountId
              \<lparr>p_owner = Some own,
               p_initialBalance = js_or initialBalance (Num 0),
               p_amount = Undefined\<rparr> now
      in (Success event, this'))"

definition deposit :: "store \<Rightarrow> string \<Rightarrow> jsval \<Rightarrow> string \<Rightarrow> result \<times> store" where
  "deposit this accountId amount now =
     (if js_le amount (Num 0) then (Failure ''Amount must be positive'', this)
      else
        let (event, this') =
              append_event this ''MoneyDeposited'' accountId
                \<lparr>p_owner = None, p_initialBalance = Undefined, p_amount = amount\<rparr> now
        in (Success event, this'))"

definition withdraw :: "store \<Rightarrow> string \<Rightarrow> jsval \<Rightarrow> string \<Rightarrow> result \<times> store" where
  "withdraw this accountId amount now =
     (if js_le amount (Num 0) then (Failure ''Amount must be positive'', this)
      else
        let acc = getAccountState this accountId in
        if js_lt (balance acc) amount then (Failure ''Insufficient funds'', this)
        else
          let (event, this') =
                append_event this ''MoneyWithdrawn'' accountId
                  \<lparr>p_owner = None, p_initialBalance = Undefined, p_amount = amount\<rparr> now
          in (Success event, this'))"

definition closeAccount :: "store \<Rightarrow> string \<Rightarrow> string \<Rightarrow> result \<times> store" where
  "closeAccount this accountId now =
     (let (event, this') =
            append_event this ''AccountClosed'' accountId
              \<lparr>p_owner = None, p_initialBalance = Undefined, p_amount = Undefined\<rparr> now
      in (Success event, this'))"

text \<open>
  The four commands, and their routing to the handlers (the POST branch of
  \<open>handleRequest\<close>, without the adapter's checks of the request body).
\<close>

datatype command =
    CreateAccount string string jsval
  | Deposit string jsval
  | Withdraw string jsval
  | CloseAccount string

fun handle :: "store \<Rightarrow> command \<Rightarrow> string \<Rightarrow> result \<times> store" where
  "handle this (CreateAccount accountId own initialBalance) now =
     createAccount this accountId own initialBalance now"
| "handle this (Deposit accountId amount) now = deposit this accountId amount now"
| "handle this (Withdraw accountId amount) now = withdraw this accountId amount now"
| "handle this (CloseAccount accountId) now = closeAccount this accountId now"

section \<open>Notions the properties are stated with\<close>

text \<open>The event types that \<open>apply\<close> compares against.\<close>

definition recognized :: "string list" where
  "recognized = [''AccountCreated'', ''MoneyDeposited'', ''MoneyWithdrawn'', ''AccountClosed'']"

text \<open>
  The log states of a run: \<open>append\<close> is the only code that writes \<open>this.events\<close> or
  \<open>this.eventId\<close>, so every log state is the constructor's store after some list of
  appends, each given by its arguments and its time of call.
\<close>

fun appends :: "store \<Rightarrow> (string \<times> string \<times> payload \<times> string) list \<Rightarrow> store" where
  "appends s [] = s"
| "appends s ((eventType, aggregateId, dat, now) # as) =
     appends (snd (append_event s eventType aggregateId dat now)) as"

text \<open>
  A sequence of commands, each with its time of call, every one of which is accepted:
  the store after the last one, or \<open>None\<close> when some command of the sequence is rejected.
\<close>

fun run_accepted :: "store \<Rightarrow> (command \<times> string) list \<Rightarrow> store option" where
  "run_accepted s [] = Some s"
| "run_accepted s ((c, now) # cs) =
     (case handle s c now of
        (Success e, s') \<Rightarrow> run_accepted s' cs
      | (Failure err, s') \<Rightarrow> None)"

text \<open>A finite number, and one that is not negative.\<close>

fun finite_number :: "jsval \<Rightarrow> bool" where
  "finite_number (Num n) = True"
| "finite_number _ = False"

fun nonneg_finite_number :: "jsval \<Rightarrow> bool" where
  "nonneg_finite_number (Num n) = (0 \<le> n)"
| "nonneg_finite_number _ = False"

text \<open>
  A command for account \<open>a\<close> carries a finite number: an amount for \<open>deposit\<close> and
  \<open>withdraw\<close>, an opening balance that is not negative for \<open>createAccount\<close>. Commands
  for other accounts are not restricted.
\<close>

fun inputs_ok :: "string \<Rightarrow> command \<Rightarrow> bool" where
  "inputs_ok a (CreateAccount accountId own initialBalance) =
     (accountId \<noteq> a \<or> nonneg_finite_number initialBalance)"
| "inputs_ok a (Deposit accountId amount) = (accountId \<noteq> a \<or> finite_number amount)"
| "inputs_ok a (Withdraw accountId amount) = (accountId \<noteq> a \<or> finite_number amount)"
| "inputs_ok a (CloseAccount accountId) = True"

text \<open>
  The projector as the specification words it, for comparison with \<open>loadFromHistory\<close>:
  the same fold, except that an event of a kind outside the transition table ends the
  projection with \<open>MalformedEvent\<close>.
\<close>

datatype projection_error = MalformedEvent

fun spec_project :: "account \<Rightarrow> event list \<Rightarrow> projection_error + account" where
  "spec_project st [] = Inr st"
| "spec_project st (e # es) =
     (if ev_type e \<in> set recognized then spec_project (apply_event st e) es
      else Inl MalformedEvent)"

text \<open>
  Sample runs: on a fresh store, account \<open>ACC001\<close> is opened for John Doe with 100
  (\<open>scenarioA\<close>); then 50 is deposited and 30 withdrawn (\<open>scenarioB\<close>, balance 120
  after three events).
\<close>

definition scenario_commands :: "(command \<times> string) list" where
  "scenario_commands =
     [(CreateAccount ''ACC001'' ''John Doe'' (Num 100), ''2024-01-01T10:00:00.000Z''),
      (Deposit ''ACC001'' (Num 50), ''2024-01-01T10:05:00.000Z''),
      (Withdraw ''ACC001'' (Num 30), ''2024-01-01T10:10:00.000Z'')]"

definition scenarioA :: store where
  "scenarioA =
     snd (createAccount EventStore ''ACC001'' ''John Doe'' (Num 100)
            ''2024-01-01T10:00:00.000Z'')"

definition scenarioB :: store where
  "scenarioB =
     snd (withdraw (snd (deposit scenarioA ''ACC001'' (Num 50) ''2024-01-01T10:05:00.000Z''))
            ''ACC001'' (Num 30) ''2024-01-01T10:10:00.000Z'')"

text \<open>An event of a type outside the four that \<open>apply\<close> compares against.\<close>

definition interest_paid :: event where
  "interest_paid =
     \<lparr>ev_id = 2, ev_type = ''InterestPaid'', ev_aggregateId = ''ACC001'',
      ev_data = \<lparr>p_owner = None, p_initialBalance = Undefined, p_amount = Num 5\<rparr>,
      ev_timestamp = ''2024-01-01T10:05:00.000Z''\<rparr>"

definition account_created :: event where
  "account_created =
     \<lparr>ev_id = 1, ev_type = ''AccountCreated'', ev_aggregateId = ''ACC001'',
      ev_data = \<lparr>p_owner = Some ''John Doe'', p_initialBalance = Num 100, p_amount = Undefined\<rparr>,
      ev_timestamp = ''2024-01-01T10:00:00.000Z''\<rparr>"

text \<open>Three appends on a fresh store, for two aggregates.\<close>

definition sample_appends :: "(string \<times> string \<times> payload \<times> string) list" where
  "sample_appends =
     [(''AccountCreated'', ''ACC001'',
       \<lparr>p_owner = Some ''John Doe'', p_initialBalance = Num 100, p_amount = Undefined\<rparr>,
       ''2024-01-01T10:00:00.000Z''),
      (''AccountCreated'', ''ACC002'',
       \<lparr>p_owner = Some ''Jane Roe'', p_initialBalance = Num 0, p_amount = Undefined\<rparr>,
       ''2024-01-01T10:01:00.000Z''),
      (''MoneyDeposited'', ''ACC001'',
       \<lparr>p_owner = None, p_initialBalance = Undefined, p_amount = Num 50\<rparr>,
       ''2024-01-01T10:05:00.000Z'')]"

section \<open>Auxiliary facts\<close>

lemmas run_defs = createAccount_def deposit_def withdraw_def closeAccount_def append_event_def
  getAccountState_def getEventsForAggregate_def EventStore_def Account_def apply_event_def
  js_or_def Let_def

subsection \<open>The store\<close>

lemma getEventsLoop_filter:
  "getEventsLoop es a acc = acc @ filter (\<lambda>e. ev_aggregateId e = a) es"
  by (induction es arbitrary: acc) simp_all

lemma getEventsForAggregate_filter:
  "getEventsForAggregate s a = filter (\<lambda>e. ev_aggregateId e = a) (events s)"
  by (simp add: getEventsForAggregate_def getEventsLoop_filter)

lemma events_append_event:
  "events (snd (append_event s t a d now)) =
     events s @ [\<lparr>ev_id = eventId s, ev_type = t, ev_aggregateId = a, ev_data = d, ev_timestamp = now\<rparr>]"
  by (simp add: append_event_def Let_def)

lemma eventId_append_event: "eventId (snd (append_event s t a d now)) = eventId s + 1"
  by (simp add: append_event_def Let_def)

text \<open>
  The invariant of the store: the sequence numbers in the log ascend strictly, and all of
  them are below the next number to be given out.
\<close>

lemma ordered_append_event:
  assumes "sorted_wrt (<) (map ev_id (events s))" and "\<forall>e \<in> set (events s). ev_id e < eventId s"
  shows "sorted_wrt (<) (map ev_id (events (snd (append_event s t a d now))))"
    and "\<forall>e \<in> set (events (snd (append_event s t a d now))).
           ev_id e < eventId (snd (append_event s t a d now))"
  using assms
  by (auto simp: events_append_event eventId_append_event sorted_wrt_append less_Suc_eq)

lemma ordered_appends:
  "sorted_wrt (<) (map ev_id (events s)) \<Longrightarrow> \<forall>e \<in> set (events s). ev_id e < eventId s \<Longrightarrow>
   sorted_wrt (<) (map ev_id (events (appends s as)))"
proof (induction as arbitrary: s)
  case Nil
  then show ?case by simp
next
  case (Cons x as)
  obtain t a d now where x: "x = (t, a, d, now)" by (cases x) auto
  show ?case
    unfolding x appends.simps
    by (rule Cons.IH) (rule ordered_append_event [OF Cons.prems])+
qed

lemma ordered_log: "sorted_wrt (<) (map ev_id (events (appends EventStore as)))"
  by (rule ordered_appends) (simp_all add: EventStore_def)

lemma sorted_ids_filter:
  "sorted_wrt (<) (map ev_id es) \<Longrightarrow> sorted_wrt (<) (map ev_id (filter P es))"
  by (induction es) auto

text \<open>Every handler leaves the store as it is or makes one append.\<close>

lemma snd_createAccount:
  "snd (createAccount s i own init now) =
     appends s [(''AccountCreated'', i,
       \<lparr>p_owner = Some own, p_initialBalance = js_or init (Num 0), p_amount = Undefined\<rparr>, now)]"
  by (simp add: createAccount_def split: prod.splits)

lemma snd_deposit:
  "snd (deposit s i amt now) =
     appends s (if js_le amt (Num 0) then []
       else [(''MoneyDeposited'', i,
               \<lparr>p_owner = None, p_initialBalance = Undefined, p_amount = amt\<rparr>, now)])"
  by (simp add: deposit_def split: prod.splits)

lemma snd_withdraw:
  "snd (withdraw s i amt now) =
     appends s (if js_le amt (Num 0) \<or> js_lt (balance (getAccountState s i)) amt then []
       else [(''MoneyWithdrawn'', i,
               \<lparr>p_owner = None, p_initialBalance = Undefined, p_amount = amt\<rparr>, now)])"
  by (simp add: withdraw_def Let_def split: prod.splits)

lemma snd_closeAccount:
  "snd (closeAccount s i now) =
     appends s [(''AccountClosed'', i,
       \<lparr>p_owner = None, p_initialBalance = Undefined, p_amount = Undefined\<rparr>, now)]"
  by (simp add: closeAccount_def split: prod.splits)

lemma handle_is_appends: "\<exists>as. snd (handle s c now) = appends s as"
proof (cases c)
  case (CreateAccount i own init)
  show ?thesis unfolding CreateAccount handle.simps snd_createAccount by (rule exI) (rule refl)
next
  case (Deposit i amt)
  show ?thesis unfolding Deposit handle.simps snd_deposit by (rule exI) (rule refl)
next
  case (Withdraw i amt)
  show ?thesis unfolding Withdraw handle.simps snd_withdraw by (rule exI) (rule refl)
next
  case (CloseAccount i)
  show ?thesis unfolding CloseAccount handle.simps snd_closeAccount by (rule exI) (rule refl)
qed

subsection \<open>The fold\<close>

lemma loadFromHistory_snoc:
  "loadFromHistory st (es @ [e]) = apply_event (loadFromHistory st es) e"
  by (induction es arbitrary: st) simp_all

lemma version_apply_event: "version (apply_event st e) = version st + 1"
  by (simp add: apply_event_def Let_def)

lemma version_loadFromHistory: "version (loadFromHistory st es) = version st + length es"
  by (induction es arbitrary: st) (simp_all add: version_apply_event)

lemma apply_event_unrecognized:
  "ev_type e \<notin> set recognized \<Longrightarrow> apply_event st e = st\<lparr>version := version st + 1\<rparr>"
  by (simp add: apply_event_def recognized_def Let_def)

lemma apply_event_version_update:
  "apply_event (st\<lparr>version := v\<rparr>) e = (apply_event st e)\<lparr>version := v + 1\<rparr>"
  by (simp add: apply_event_def Let_def)

lemma loadFromHistory_version_update:
  "loadFromHistory (st\<lparr>version := v\<rparr>) es = (loadFromHistory st es)\<lparr>version := v + length es\<rparr>"
proof (induction es arbitrary: st v)
  case Nil
  show ?case by simp
next
  case (Cons e es)
  show ?case by (simp add: apply_event_version_update Cons.IH)
qed

lemma getAccountState_append_event:
  "getAccountState (snd (append_event s t a d now)) b =
     (if a = b
      then apply_event (getAccountState s b)
             \<lparr>ev_id = eventId s, ev_type = t, ev_aggregateId = a, ev_data = d, ev_timestamp = now\<rparr>
      else getAccountState s b)"
  by (simp add: getAccountState_def getEventsForAggregate_filter events_append_event
        loadFromHistory_snoc)

subsection \<open>The sample runs\<close>

lemma scenarioA_value: "scenarioA = \<lparr>events = [account_created], eventId = 2\<rparr>"
  by (simp add: scenarioA_def account_created_def run_defs)

lemma scenarioB_state:
  "getAccountState scenarioB ''ACC001'' =
     \<lparr>acc_id = ''ACC001'', balance = Num 120, owner = Some ''John Doe'', isActive = True,
      version = 3\<rparr>"
  by (simp add: scenarioB_def scenarioA_def run_defs)

lemma scenario_commands_run: "run_accepted EventStore scenario_commands = Some scenarioB"
  by (simp add: scenario_commands_def scenarioB_def scenarioA_def run_defs)

section \<open>The projector and unknown event kinds\<close>

text \<open>
  C1 (as amended). The specification has the projector reject a sequence that contains an
  event of a kind outside the four recognized ones with \<open>MalformedEvent\<close>. The program
  has no such condition: \<open>loadFromHistory\<close> always returns a state, and an event of an
  unknown kind is passed over, counting only toward \<open>version\<close>. The state projected
  from any sequence is the state projected from its events of recognized kinds, with
  \<open>version\<close> raised by the length of the whole sequence.
\<close>

theorem unknown_kinds_are_skipped:
  "loadFromHistory st es =
     (loadFromHistory st (filter (\<lambda>e. ev_type e \<in> set recognized) es))
       \<lparr>version := version st + length es\<rparr>"
proof (induction es arbitrary: st)
  case Nil
  show ?case by simp
next
  case (Cons e es)
  show ?case
  proof (cases "ev_type e \<in> set recognized")
    case True
    then show ?thesis
      using Cons.IH [of "apply_event st e"] by (simp add: version_apply_event)
  next
    case False
    then show ?thesis
      using Cons.IH [of "st\<lparr>version := version st + 1\<rparr>"]
      by (simp add: apply_event_unrecognized loadFromHistory_version_update)
  qed
qed

theorem unknown_kinds_are_skipped_witness:
  "loadFromHistory (Account ''ACC001'') [account_created, interest_paid, interest_paid] =
     (loadFromHistory (Account ''ACC001'') [account_created])\<lparr>version := 3\<rparr>"
  using unknown_kinds_are_skipped [of "Account ''ACC001''" "[account_created, interest_paid, interest_paid]"]
  by (simp add: recognized_def account_created_def interest_paid_def Account_def)

text \<open>
  The claim as the specification states it fails: a sequence with an event of type
  \<open>InterestPaid\<close> is projected to an ordinary state, where the specification's projector
  stops with \<open>MalformedEvent\<close>.
\<close>

theorem unknown_kind_not_rejected:
  "ev_type interest_paid \<notin> set recognized
   \<and> spec_project (Account ''ACC001'') [account_created, interest_paid] = Inl MalformedEvent
   \<and> loadFromHistory (Account ''ACC001'') [account_created, interest_paid] =
       \<lparr>acc_id = ''ACC001'', balance = Num 100, owner = Some ''John Doe'', isActive = True,
        version = 2\<rparr>"
  by (simp add: recognized_def account_created_def interest_paid_def Account_def apply_event_def
        js_or_def Let_def)

text \<open>
  C10. Applying an event whose type is none of the four recognized ones increments
  \<open>version\<close> by one and leaves \<open>id\<close>, \<open>owner\<close>, \<open>balance\<close> and \<open>isActive\<close> as
  they were.
\<close>

theorem unknown_kind_frame:
  "ev_type e \<notin> set recognized \<Longrightarrow>
     version (apply_event st e) = version st + 1
     \<and> acc_id (apply_event st e) = acc_id st
     \<and> owner (apply_event st e) = owner st
     \<and> balance (apply_event st e) = balance st
     \<and> isActive (apply_event st e) = isActive st"
  by (simp add: apply_event_unrecognized)

theorem unknown_kind_frame_witness:
  "ev_type interest_paid \<notin> set recognized
   \<and> apply_event (getAccountState scenarioB ''ACC001'') interest_paid =
       \<lparr>acc_id = ''ACC001'', balance = Num 120, owner = Some ''John Doe'', isActive = True,
        version = 4\<rparr>"
proof -
  have h: "ev_type interest_paid \<notin> set recognized"
    by (simp add: interest_paid_def recognized_def)
  let ?st = "getAccountState scenarioB ''ACC001''"
  have "apply_event ?st interest_paid =
          \<lparr>acc_id = acc_id (apply_event ?st interest_paid),
           balance = balance (apply_event ?st interest_paid),
           owner = owner (apply_event ?st interest_paid),
           isActive = isActive (apply_event ?st interest_paid),
           version = version (apply_event ?st interest_paid)\<rparr>"
    by simp
  then show ?thesis
    using h unknown_kind_frame [OF h, of ?st] by (simp add: scenarioB_state)
qed

section \<open>Version and the zero state\<close>

text \<open>
  C4. For every log state and every entity identifier, the \<open>version\<close> of the projected
  current state is the number of events stored for that entity; and applying one event
  increments \<open>version\<close> by exactly one, whatever the event's kind.
\<close>

theorem version_counts_events:
  "version (getAccountState s a) = length (getEventsForAggregate s a)
   \<and> version (apply_event st e) = version st + 1"
  by (simp add: getAccountState_def version_loadFromHistory version_apply_event Account_def)

theorem version_counts_events_witness:
  "version (getAccountState scenarioB ''ACC001'') = 3
   \<and> length (getEventsForAggregate scenarioB ''ACC001'') = 3
   \<and> version (apply_event (Account ''ACC001'') interest_paid) = 1"
  using version_counts_events [of scenarioB "''ACC001''" "Account ''ACC001''" interest_paid]
  by (simp add: scenarioB_state Account_def)

text \<open>
  C9. For an entity identifier with no events in the log, the current state is the zero
  state (balance 0, owner empty, inactive, version 0), returned as an ordinary value; and
  the projected version is 0 exactly when the entity has no events.
\<close>

theorem no_events_zero_state:
  "(getEventsForAggregate s a = [] \<longrightarrow>
      getAccountState s a =
        \<lparr>acc_id = a, balance = Num 0, owner = Some '''', isActive = False, version = 0\<rparr>)
   \<and> (version (getAccountState s a) = 0) = (getEventsForAggregate s a = [])"
  by (simp add: getAccountState_def Account_def version_loadFromHistory)

theorem no_events_zero_state_witness:
  "getEventsForAggregate scenarioB ''ACC404'' = []
   \<and> getAccountState scenarioB ''ACC404'' =
       \<lparr>acc_id = ''ACC404'', balance = Num 0, owner = Some '''', isActive = False, version = 0\<rparr>
   \<and> version (getAccountState scenarioB ''ACC001'') \<noteq> 0"
proof -
  have h: "getEventsForAggregate scenarioB ''ACC404'' = []"
    by (simp add: scenarioB_def scenarioA_def run_defs)
  show ?thesis
    using h no_events_zero_state [of scenarioB "''ACC404''"] by (simp add: scenarioB_state)
qed

section \<open>The event log\<close>

text \<open>
  C7. In every log state, an event appended before another has the strictly smaller
  sequence number: for positions \<open>i < j\<close> of the log, the sequence number at \<open>i\<close> is
  below the one at \<open>j\<close>; hence the sequence numbers are unique and ascend in append
  order.
\<close>

theorem sequence_numbers_increase:
  "i < j \<Longrightarrow> j < length (events (appends EventStore as)) \<Longrightarrow>
     ev_id (events (appends EventStore as) ! i) < ev_id (events (appends EventStore as) ! j)
     \<and> distinct (map ev_id (events (appends EventStore as)))"
proof -
  assume ij: "i < j" "j < length (events (appends EventStore as))"
  have ordered: "sorted_wrt (<) (map ev_id (events (appends EventStore as)))"
    by (rule ordered_log)
  have "ev_id (events (appends EventStore as) ! i) < ev_id (events (appends EventStore as) ! j)"
    using ordered ij by (simp add: sorted_wrt_iff_nth_less)
  moreover have "distinct (map ev_id (events (appends EventStore as)))"
    using ordered by (simp add: strict_sorted_iff)
  ultimately show ?thesis ..
qed

theorem sequence_numbers_increase_witness:
  "(0::nat) < 2 \<and> 2 < length (events (appends EventStore sample_appends))
   \<and> ev_id (events (appends EventStore sample_appends) ! 0) = 1
   \<and> ev_id (events (appends EventStore sample_appends) ! 2) = 3
   \<and> distinct (map ev_id (events (appends EventStore sample_appends)))"
proof -
  have len: "2 < length (events (appends EventStore sample_appends))"
    by (simp add: sample_appends_def append_event_def EventStore_def Let_def)
  have "ev_id (events (appends EventStore sample_appends) ! 0) = 1"
    and "ev_id (events (appends EventStore sample_appends) ! 2) = 3"
    by (simp_all add: sample_appends_def append_event_def EventStore_def Let_def)
  then show ?thesis
    using len sequence_numbers_increase [of 0 2 sample_appends] by simp
qed

text \<open>
  C8. For every log state and entity identifier, \<open>getEventsForAggregate\<close> returns
  exactly the events of the log whose \<open>aggregateId\<close> matches, in the order of the log,
  which is ascending sequence-number order; and it returns the empty sequence when the
  entity has no events.
\<close>

theorem eventsFor_is_filter:
  "getEventsForAggregate s a = filter (\<lambda>e. ev_aggregateId e = a) (events s)
   \<and> (s = appends EventStore as \<longrightarrow> sorted_wrt (<) (map ev_id (getEventsForAggregate s a)))
   \<and> ((\<forall>e \<in> set (events s). ev_aggregateId e \<noteq> a) \<longrightarrow> getEventsForAggregate s a = [])"
proof (intro conjI impI)
  show "getEventsForAggregate s a = filter (\<lambda>e. ev_aggregateId e = a) (events s)"
    by (rule getEventsForAggregate_filter)
next
  assume "s = appends EventStore as"
  then have "sorted_wrt (<) (map ev_id (events s))" by (simp add: ordered_log)
  then show "sorted_wrt (<) (map ev_id (getEventsForAggregate s a))"
    by (simp add: getEventsForAggregate_filter sorted_ids_filter)
next
  assume "\<forall>e \<in> set (events s). ev_aggregateId e \<noteq> a"
  then show "getEventsForAggregate s a = []"
    by (simp add: getEventsForAggregate_filter)
qed

theorem eventsFor_is_filter_witness:
  "map ev_id (getEventsForAggregate (appends EventStore sample_appends) ''ACC001'') = [1, 3]
   \<and> map ev_id (getEventsForAggregate (appends EventStore sample_appends) ''ACC002'') = [2]
   \<and> sorted_wrt (<) (map ev_id (getEventsForAggregate (appends EventStore sample_appends) ''ACC001''))
   \<and> list_all (\<lambda>e. ev_aggregateId e \<noteq> ''ACC404'') (events (appends EventStore sample_appends))
   \<and> getEventsForAggregate (appends EventStore sample_appends) ''ACC404'' = []"
proof -
  let ?s = "appends EventStore sample_appends"
  have ev: "events ?s =
      [\<lparr>ev_id = 1, ev_type = ''AccountCreated'', ev_aggregateId = ''ACC001'',
        ev_data = \<lparr>p_owner = Some ''John Doe'', p_initialBalance = Num 100, p_amount = Undefined\<rparr>,
        ev_timestamp = ''2024-01-01T10:00:00.000Z''\<rparr>,
       \<lparr>ev_id = 2, ev_type = ''AccountCreated'', ev_aggregateId = ''ACC002'',
        ev_data = \<lparr>p_owner = Some ''Jane Roe'', p_initialBalance = Num 0, p_amount = Undefined\<rparr>,
        ev_timestamp = ''2024-01-01T10:01:00.000Z''\<rparr>,
       \<lparr>ev_id = 3, ev_type = ''MoneyDeposited'', ev_aggregateId = ''ACC001'',
        ev_data = \<lparr>p_owner = None, p_initialBalance = Undefined, p_amount = Num 50\<rparr>,
        ev_timestamp = ''2024-01-01T10:05:00.000Z''\<rparr>]"
    by (simp add: sample_appends_def append_event_def EventStore_def Let_def)
  have none: "\<forall>e \<in> set (events ?s). ev_aggregateId e \<noteq> ''ACC404''"
    by (simp add: ev)
  show ?thesis
    using none
      eventsFor_is_filter [of ?s "''ACC001''" sample_appends]
      eventsFor_is_filter [of ?s "''ACC002''" sample_appends]
      eventsFor_is_filter [of ?s "''ACC404''" sample_appends]
    by (simp add: ev)
qed

section \<open>The command handlers\<close>

text \<open>
  C6. For every account identifier and amount, \<open>deposit\<close> returns a rejection if and
  only if \<open>amount <= 0\<close>, the rejection being the invalid-amount one
  (\<open>Amount must be positive\<close>); otherwise it appends exactly one \<open>MoneyDeposited\<close>
  event for that account carrying that amount, and returns it as a success.
\<close>

theorem deposit_cases:
  "(\<exists>err. fst (deposit s a amount now) = Failure err) = js_le amount (Num 0)
   \<and> (js_le amount (Num 0) \<longrightarrow>
        fst (deposit s a amount now) = Failure ''Amount must be positive'')
   \<and> (\<not> js_le amount (Num 0) \<longrightarrow>
        (\<exists>e. fst (deposit s a amount now) = Success e
            \<and> events (snd (deposit s a amount now)) = events s @ [e]
            \<and> ev_type e = ''MoneyDeposited'' \<and> ev_aggregateId e = a
            \<and> p_amount (ev_data e) = amount))"
  by (simp add: deposit_def append_event_def Let_def)

theorem deposit_cases_witness:
  "js_le (Num (- 10)) (Num 0)
   \<and> fst (deposit scenarioA ''ACC001'' (Num (- 10)) ''2024-01-01T10:05:00.000Z'')
       = Failure ''Amount must be positive''
   \<and> \<not> js_le (Num 50) (Num 0)
   \<and> (\<exists>e. fst (deposit scenarioA ''ACC001'' (Num 50) ''2024-01-01T10:05:00.000Z'') = Success e
         \<and> events (snd (deposit scenarioA ''ACC001'' (Num 50) ''2024-01-01T10:05:00.000Z''))
             = [account_created, e]
         \<and> ev_type e = ''MoneyDeposited'' \<and> ev_aggregateId e = ''ACC001''
         \<and> p_amount (ev_data e) = Num 50)
   \<and> \<not> js_le PosInf (Num 0)
   \<and> (\<exists>e. fst (deposit scenarioA ''ACC001'' PosInf ''2024-01-01T10:05:00.000Z'') = Success e
         \<and> p_amount (ev_data e) = PosInf)"
  using deposit_cases [of scenarioA "''ACC001''" "Num (- 10)" "''2024-01-01T10:05:00.000Z''"]
    deposit_cases [of scenarioA "''ACC001''" "Num 50" "''2024-01-01T10:05:00.000Z''"]
    deposit_cases [of scenarioA "''ACC001''" PosInf "''2024-01-01T10:05:00.000Z''"]
  by (auto simp: scenarioA_value)

text \<open>
  C5. For every account identifier and amount, \<open>withdraw\<close> first rejects with the
  invalid-amount rejection when \<open>amount <= 0\<close>; otherwise it projects the account's
  current state and rejects with \<open>Insufficient funds\<close> when the projected balance is
  strictly less than the amount; otherwise it appends exactly one \<open>MoneyWithdrawn\<close>
  event for that account carrying that amount, and returns it as a success.
\<close>

theorem withdraw_cases:
  "(js_le amount (Num 0) \<longrightarrow>
      withdraw s a amount now = (Failure ''Amount must be positive'', s))
   \<and> (\<not> js_le amount (Num 0) \<and> js_lt (balance (getAccountState s a)) amount \<longrightarrow>
        withdraw s a amount now = (Failure ''Insufficient funds'', s))
   \<and> (\<not> js_le amount (Num 0) \<and> \<not> js_lt (balance (getAccountState s a)) amount \<longrightarrow>
        (\<exists>e. fst (withdraw s a amount now) = Success e
            \<and> events (snd (withdraw s a amount now)) = events s @ [e]
            \<and> ev_type e = ''MoneyWithdrawn'' \<and> ev_aggregateId e = a
            \<and> p_amount (ev_data e) = amount))"
  by (simp add: withdraw_def append_event_def Let_def)

theorem withdraw_cases_witness:
  "withdraw scenarioB ''ACC001'' (Num (- 5)) ''2024-01-01T10:15:00.000Z''
     = (Failure ''Amount must be positive'', scenarioB)
   \<and> js_lt (balance (getAccountState scenarioB ''ACC001'')) (Num 200)
   \<and> withdraw scenarioB ''ACC001'' (Num 200) ''2024-01-01T10:15:00.000Z''
       = (Failure ''Insufficient funds'', scenarioB)
   \<and> \<not> js_lt (balance (getAccountState scenarioB ''ACC001'')) (Num 120)
   \<and> (\<exists>e. fst (withdraw scenarioB ''ACC001'' (Num 120) ''2024-01-01T10:15:00.000Z'') = Success e
         \<and> events (snd (withdraw scenarioB ''ACC001'' (Num 120) ''2024-01-01T10:15:00.000Z''))
             = events scenarioB @ [e]
         \<and> ev_type e = ''MoneyWithdrawn'' \<and> ev_aggregateId e = ''ACC001''
         \<and> p_amount (ev_data e) = Num 120)"
  using withdraw_cases [of "Num (- 5)" scenarioB "''ACC001''" "''2024-01-01T10:15:00.000Z''"]
    withdraw_cases [of "Num 200" scenarioB "''ACC001''" "''2024-01-01T10:15:00.000Z''"]
    withdraw_cases [of "Num 120" scenarioB "''ACC001''" "''2024-01-01T10:15:00.000Z''"]
  by (simp add: scenarioB_state)

text \<open>
  C3. For every command and every log state, if handling the command returns a rejection
  then the store after the call is the store before it: no event is appended, and the
  event sequence of every entity, the command's own included, is unchanged.
\<close>

theorem rejection_appends_nothing:
  "fst (handle s c now) = Failure err \<Longrightarrow>
     snd (handle s c now) = s
     \<and> getEventsForAggregate (snd (handle s c now)) a = getEventsForAggregate s a"
  by (cases c)
     (auto simp: createAccount_def deposit_def withdraw_def closeAccount_def Let_def
           split: if_splits prod.splits)

theorem rejection_appends_nothing_witness:
  "fst (handle scenarioB (Withdraw ''ACC001'' (Num 200)) ''2024-01-01T10:15:00.000Z'')
     = Failure ''Insufficient funds''
   \<and> snd (handle scenarioB (Withdraw ''ACC001'' (Num 200)) ''2024-01-01T10:15:00.000Z'')
       = scenarioB
   \<and> length (getEventsForAggregate
        (snd (handle scenarioB (Withdraw ''ACC001'' (Num 200)) ''2024-01-01T10:15:00.000Z''))
        ''ACC001'') = 3"
proof -
  have h: "fst (handle scenarioB (Withdraw ''ACC001'' (Num 200)) ''2024-01-01T10:15:00.000Z'')
             = Failure ''Insufficient funds''"
    by (simp add: withdraw_def scenarioB_state)
  have "length (getEventsForAggregate scenarioB ''ACC001'') = 3"
    by (simp add: scenarioB_def scenarioA_def run_defs)
  then show ?thesis
    using h rejection_appends_nothing [OF h, of "''ACC001''"] by simp
qed

section \<open>No overdraft\<close>

lemma js_nonneg_iff: "js_le (Num 0) v = (v = PosInf \<or> (\<exists>n. v = Num n \<and> 0 \<le> n))"
  by (cases v) simp_all

lemma finite_number_iff: "finite_number v = (\<exists>n. v = Num n)"
  by (cases v) simp_all

lemma nonneg_finite_number_iff: "nonneg_finite_number v = (\<exists>n. v = Num n \<and> 0 \<le> n)"
  by (cases v) simp_all

text \<open>
  One accepted command keeps the balance of account \<open>a\<close> at or above zero. The balance
  before the command may be any value that is \<open>>= 0\<close>, \<open>Infinity\<close> included.
\<close>

lemma accepted_step_keeps_balance:
  assumes "handle s c now = (Success e, s')"
    and "inputs_ok a c"
    and "js_le (Num 0) (balance (getAccountState s a))"
  shows "js_le (Num 0) (balance (getAccountState s' a))"
proof (cases c)
  case (CreateAccount i own init)
  then have s': "s' = snd (append_event s ''AccountCreated'' i
      \<lparr>p_owner = Some own, p_initialBalance = js_or init (Num 0), p_amount = Undefined\<rparr> now)"
    using assms(1) by (auto simp: createAccount_def split: prod.splits)
  show ?thesis
  proof (cases "i = a")
    case True
    then obtain n where "init = Num n" "0 \<le> n"
      using assms(2) CreateAccount by (auto simp: nonneg_finite_number_iff)
    then show ?thesis
      using True by (simp add: s' getAccountState_append_event apply_event_def js_or_def Let_def)
  next
    case False
    then show ?thesis using assms(3) by (simp add: s' getAccountState_append_event)
  qed
next
  case (Deposit i amt)
  then have pos: "\<not> js_le amt (Num 0)"
    and s': "s' = snd (append_event s ''MoneyDeposited'' i
      \<lparr>p_owner = None, p_initialBalance = Undefined, p_amount = amt\<rparr> now)"
    using assms(1) by (auto simp: deposit_def split: prod.splits if_splits)
  show ?thesis
  proof (cases "i = a")
    case True
    then obtain n where n: "amt = Num n"
      using assms(2) Deposit by (auto simp: finite_number_iff)
    with pos have "0 < n" by simp
    then show ?thesis
      using True n assms(3)
      by (auto simp: s' getAccountState_append_event apply_event_def Let_def js_nonneg_iff)
  next
    case False
    then show ?thesis using assms(3) by (simp add: s' getAccountState_append_event)
  qed
next
  case (Withdraw i amt)
  then have pos: "\<not> js_le amt (Num 0)"
    and enough: "\<not> js_lt (balance (getAccountState s i)) amt"
    and s': "s' = snd (append_event s ''MoneyWithdrawn'' i
      \<lparr>p_owner = None, p_initialBalance = Undefined, p_amount = amt\<rparr> now)"
    using assms(1) by (auto simp: withdraw_def Let_def split: prod.splits if_splits)
  show ?thesis
  proof (cases "i = a")
    case True
    then obtain n where n: "amt = Num n"
      using assms(2) Withdraw by (auto simp: finite_number_iff)
    show ?thesis
      using True n enough assms(3)
      by (auto simp: s' getAccountState_append_event apply_event_def Let_def js_nonneg_iff)
  next
    case False
    then show ?thesis using assms(3) by (simp add: s' getAccountState_append_event)
  qed
next
  case (CloseAccount i)
  then have s': "s' = snd (append_event s ''AccountClosed'' i
      \<lparr>p_owner = None, p_initialBalance = Undefined, p_amount = Undefined\<rparr> now)"
    using assms(1) by (auto simp: closeAccount_def split: prod.splits)
  show ?thesis
    using assms(3) by (simp add: s' getAccountState_append_event apply_event_def Let_def)
qed

lemma run_accepted_keeps_balance:
  "run_accepted s cs = Some s' \<Longrightarrow> \<forall>c \<in> set cs. inputs_ok a (fst c) \<Longrightarrow>
   js_le (Num 0) (balance (getAccountState s a)) \<Longrightarrow>
   js_le (Num 0) (balance (getAccountState s' a))"
proof (induction cs arbitrary: s)
  case Nil
  then show ?case by simp
next
  case (Cons x cs)
  obtain c now where x: "x = (c, now)" by (cases x) auto
  obtain r s1 where h: "handle s c now = (r, s1)" by (cases "handle s c now") auto
  from Cons.prems(1) obtain e where r: "r = Success e" and rest: "run_accepted s1 cs = Some s'"
    by (cases r) (auto simp: x h)
  have "js_le (Num 0) (balance (getAccountState s1 a))"
    using h [unfolded r] Cons.prems(2,3) by (auto simp: x intro: accepted_step_keeps_balance)
  with rest Cons.prems(2) show ?case by (auto intro: Cons.IH)
qed

text \<open>
  C2 (as amended). The handlers accept more than the claim allows for: \<open>createAccount\<close>
  accepts every opening balance, a negative one included, and \<open>deposit\<close> and
  \<open>withdraw\<close> accept every amount for which \<open>amount <= 0\<close> is false, \<open>Infinity\<close> and
  \<open>NaN\<close> included, so that the balance can be negative or \<open>NaN\<close> after accepted
  commands. For every entity and every sequence of accepted commands, run from a fresh
  store, in which every amount deposited to or withdrawn from that entity is a finite
  number and every opening balance given for it is a finite number that is not negative,
  the balance of the state projected from that entity's events is greater than or equal
  to zero.
\<close>

theorem no_overdraft:
  "run_accepted EventStore cs = Some s \<Longrightarrow> \<forall>c \<in> set cs. inputs_ok a (fst c) \<Longrightarrow>
     js_le (Num 0) (balance (getAccountState s a))"
  by (erule run_accepted_keeps_balance)
     (simp_all add: getAccountState_def getEventsForAggregate_def EventStore_def Account_def)

theorem no_overdraft_witness:
  "run_accepted EventStore scenario_commands = Some scenarioB
   \<and> list_all (\<lambda>c. inputs_ok ''ACC001'' (fst c)) scenario_commands
   \<and> js_le (Num 0) (balance (getAccountState scenarioB ''ACC001''))
   \<and> balance (getAccountState scenarioB ''ACC001'') = Num 120"
proof -
  have ok: "\<forall>c \<in> set scenario_commands. inputs_ok ''ACC001'' (fst c)"
    by (simp add: scenario_commands_def)
  show ?thesis
    using no_overdraft [OF scenario_commands_run ok] ok
    by (simp add: scenario_commands_run scenarioB_state list_all_iff)
qed

text \<open>
  The claim as the specification states it fails, in two ways. Opening an account with
  balance -100 is accepted, and the projected balance is then -100. And on an account
  opened with 0, a deposit of \<open>Infinity\<close> and then a withdrawal of \<open>Infinity\<close> are both
  accepted (\<open>Infinity <= 0\<close> and \<open>Infinity < Infinity\<close> are false), and the projected
  balance is then \<open>Infinity - Infinity\<close>, that is \<open>NaN\<close>, for which \<open>>= 0\<close> is false.
\<close>

theorem negative_opening_balance_accepted:
  "run_accepted EventStore
       [(CreateAccount ''ACC002'' ''Jane Roe'' (Num (- 100)), ''2024-01-01T10:00:00.000Z'')]
     = Some \<lparr>events =
               [\<lparr>ev_id = 1, ev_type = ''AccountCreated'', ev_aggregateId = ''ACC002'',
                 ev_data = \<lparr>p_owner = Some ''Jane Roe'', p_initialBalance = Num (- 100),
                            p_amount = Undefined\<rparr>,
                 ev_timestamp = ''2024-01-01T10:00:00.000Z''\<rparr>],
             eventId = 2\<rparr>
   \<and> balance (getAccountState
        \<lparr>events =
           [\<lparr>ev_id = 1, ev_type = ''AccountCreated'', ev_aggregateId = ''ACC002'',
             ev_data = \<lparr>p_owner = Some ''Jane Roe'', p_initialBalance = Num (- 100),
                        p_amount = Undefined\<rparr>,
             ev_timestamp = ''2024-01-01T10:00:00.000Z''\<rparr>],
         eventId = 2\<rparr> ''ACC002'') = Num (- 100)
   \<and> \<not> js_le (Num 0) (Num (- 100))
   \<and> run_accepted EventStore
       [(CreateAccount ''ACC003'' ''Max Moe'' (Num 0), ''2024-01-01T11:00:00.000Z''),
        (Deposit ''ACC003'' PosInf, ''2024-01-01T11:05:00.000Z''),
        (Withdraw ''ACC003'' PosInf, ''2024-01-01T11:10:00.000Z'')]
     = Some \<lparr>events =
               [\<lparr>ev_id = 1, ev_type = ''AccountCreated'', ev_aggregateId = ''ACC003'',
                 ev_data = \<lparr>p_owner = Some ''Max Moe'', p_initialBalance = Num 0,
                            p_amount = Undefined\<rparr>,
                 ev_timestamp = ''2024-01-01T11:00:00.000Z''\<rparr>,
                \<lparr>ev_id = 2, ev_type = ''MoneyDeposited'', ev_aggregateId = ''ACC003'',
                 ev_data = \<lparr>p_owner = None, p_initialBalance = Undefined, p_amount = PosInf\<rparr>,
                 ev_timestamp = ''2024-01-01T11:05:00.000Z''\<rparr>,
                \<lparr>ev_id = 3, ev_type = ''MoneyWithdrawn'', ev_aggregateId = ''ACC003'',
                 ev_data = \<lparr>p_owner = None, p_initialBalance = Undefined, p_amount = PosInf\<rparr>,
                 ev_timestamp = ''2024-01-01T11:10:00.000Z''\<rparr>],
             eventId = 4\<rparr>
   \<and> balance (getAccountState
        \<lparr>events =
           [\<lparr>ev_id = 1, ev_type = ''AccountCreated'', ev_aggregateId = ''ACC003'',
             ev_data = \<lparr>p_owner = Some ''Max Moe'', p_initialBalance = Num 0,
                        p_amount = Undefined\<rparr>,
             ev_timestamp = ''2024-01-01T11:00:00.000Z''\<rparr>,
            \<lparr>ev_id = 2, ev_type = ''MoneyDeposited'', ev_aggregateId = ''ACC003'',
             ev_data = \<lparr>p_owner = None, p_initialBalance = Undefined, p_amount = PosInf\<rparr>,
             ev_timestamp = ''2024-01-01T11:05:00.000Z''\<rparr>,
            \<lparr>ev_id = 3, ev_type = ''MoneyWithdrawn'', ev_aggregateId = ''ACC003'',
             ev_data = \<lparr>p_owner = None, p_initialBalance = Undefined, p_amount = PosInf\<rparr>,
             ev_timestamp = ''2024-01-01T11:10:00.000Z''\<rparr>],
         eventId = 4\<rparr> ''ACC003'') = NaN
   \<and> \<not> js_le (Num 0) NaN"
  by (simp add: run_defs)

end
